theory Spec2Isabelle
  imports
    Complex_Main
    "HOL-Library.Sublist"
    "HOL-Library.List_Lexorder"
    "HOL-Library.Char_ord"
    "HOL-Library.Multiset"
begin

section \<open>ClaudeChatbot (backend/claudeapi.py): conversation history and search\<close>

text \<open>
  The class \<^verbatim>\<open>ClaudeChatbot\<close> keeps three pieces of mutable state that matter here:
  \<^verbatim>\<open>current_conversation_id\<close>, the in-memory buffer \<^verbatim>\<open>messages\<close> and the
  \<^verbatim>\<open>document_store\<close>. Every method is modelled as a function from the state before
  the call to the result and the state after it.

  What the methods obtain from outside the class is an explicit argument of the model:
  \<^item> each evaluation of \<^verbatim>\<open>datetime.now()\<close> is an argument of type \<open>datetime\<close>;
  \<^item> the outcome of \<^verbatim>\<open>self.client.messages.create(...)\<close> is an argument of type
    \<open>outcome\<close> (an exception with its text, or a response);
  \<^item> \<^verbatim>\<open>json.dumps\<close> and \<^verbatim>\<open>json.loads\<close> are the arguments \<open>dumps\<close> and
    \<open>loads\<close>; \<open>loads\<close> returns \<open>None\<close> where the Python call (or the later
    subscripting of its result) raises.
  The \<^verbatim>\<open>print\<close> in the exception handler of \<^verbatim>\<open>chat\<close> writes to standard output
  only and is left out.
\<close>

subsection \<open>Python values\<close>

text \<open>Truthiness of an \<^verbatim>\<open>Optional[str]\<close>: \<^verbatim>\<open>None\<close> and \<^verbatim>\<open>""\<close> are falsy.\<close>

fun truthy :: "string option \<Rightarrow> bool" where
  "truthy None = False"
| "truthy (Some s) = (s \<noteq> [])"

text \<open>\<^verbatim>\<open>a or b\<close> on such values.\<close>

definition py_or :: "string option \<Rightarrow> string option \<Rightarrow> string option" where
  "py_or a b = (if truthy a then a else b)"

text \<open>
  \<^verbatim>\<open>str.lower()\<close>, on the ASCII letters; every other character is kept.
\<close>

definition lower_char :: "char \<Rightarrow> char" where
  "lower_char c =
     (if CHR ''A'' \<le> c \<and> c \<le> CHR ''Z'' then char_of (of_char c + (32::nat)) else c)"

definition lower :: "string \<Rightarrow> string" where
  "lower s = map lower_char s"

text \<open>\<^verbatim>\<open>q in s\<close> on strings: \<open>q\<close> occurs in \<open>s\<close> as a contiguous substring.\<close>

fun str_in :: "string \<Rightarrow> string \<Rightarrow> bool" where
  "str_in q [] = (q = [])"
| "str_in q (c # cs) = (prefix q (c # cs) \<or> str_in q cs)"

text \<open>
  The slice \<^verbatim>\<open>xs[:k]\<close>: a negative \<open>k\<close> counts from the end, and the stop index is
  clipped to the list.
\<close>

definition slice_to :: "int \<Rightarrow> 'a list \<Rightarrow> 'a list" where
  "slice_to k xs = take (nat (if k < 0 then int (length xs) + k else k)) xs"

subsection \<open>The clock\<close>

text \<open>
  A value of \<^verbatim>\<open>datetime.now()\<close>: a naive local time, with the fields of Python's
  \<^verbatim>\<open>datetime\<close>.
\<close>

record datetime =
  year :: nat
  month :: nat
  day :: nat
  hour :: nat
  minute :: nat
  second :: nat
  microsecond :: nat

text \<open>The field ranges of a Python \<^verbatim>\<open>datetime\<close> (days of the month not refined).\<close>

definition valid_datetime :: "datetime \<Rightarrow> bool" where
  "valid_datetime d \<longleftrightarrow>
     1 \<le> year d \<and> year d \<le> 9999 \<and> 1 \<le> month d \<and> month d \<le> 12 \<and>
     1 \<le> day d \<and> day d \<le> 31 \<and> hour d < 24 \<and> minute d < 60 \<and> second d < 60 \<and>
     microsecond d < 1000000"

text \<open>The comparison of two \<^verbatim>\<open>datetime\<close> values: field by field, the year first.\<close>

definition datetime_key :: "datetime \<Rightarrow> nat list" where
  "datetime_key d = [year d, month d, day d, hour d, minute d, second d, microsecond d]"

definition datetime_le :: "datetime \<Rightarrow> datetime \<Rightarrow> bool" where
  "datetime_le a b \<longleftrightarrow> datetime_key a \<le> datetime_key b"

text \<open>A decimal digit, and a number in decimal, zero-padded to a width.\<close>

definition digit :: "nat \<Rightarrow> char" where
  "digit n = char_of (48 + n mod 10)"

fun zpad :: "nat \<Rightarrow> nat \<Rightarrow> string" where
  "zpad 0 n = []"
| "zpad (Suc w) n = zpad w (n div 10) @ [digit n]"

text \<open>\<^verbatim>\<open>strftime("%Y%m%d_%H%M%S")\<close>, as in \<^verbatim>\<open>start_new_conversation\<close>.\<close>

definition strftime_id :: "datetime \<Rightarrow> string" where
  "strftime_id d =
     zpad 4 (year d) @ zpad 2 (month d) @ zpad 2 (day d) @ ''_'' @
     zpad 2 (hour d) @ zpad 2 (minute d) @ zpad 2 (second d)"

text \<open>
  \<^verbatim>\<open>isoformat()\<close> of a naive \<^verbatim>\<open>datetime\<close>:
  \<^verbatim>\<open>YYYY-MM-DDTHH:MM:SS.ffffff\<close>, and without the fraction when the microsecond is 0.
\<close>

definition isoformat :: "datetime \<Rightarrow> string" where
  "isoformat d =
     zpad 4 (year d) @ ''-'' @ zpad 2 (month d) @ ''-'' @ zpad 2 (day d) @ ''T'' @
     zpad 2 (hour d) @ '':'' @ zpad 2 (minute d) @ '':'' @ zpad 2 (second d) @
     (if microsecond d = 0 then [] else ''.'' @ zpad 6 (microsecond d))"

subsection \<open>Messages, documents and the state of the chatbot\<close>

text \<open>The dict built in \<^verbatim>\<open>_store_message\<close>.\<close>

record message =
  role :: string
  content :: string
  timestamp :: string

text \<open>The \<^verbatim>\<open>meta\<close> dict of a document, and the document.\<close>

record meta =
  meta_conversation_id :: "string option"
  meta_timestamp :: string
  meta_role :: string

record document =
  doc_content :: string
  doc_meta :: meta

text \<open>An entry of the list that \<^verbatim>\<open>search_conversations\<close> returns.\<close>

record search_result =
  res_conversation_id :: "string option"
  res_message :: message
  score :: real

record chatbot =
  current_conversation_id :: "string option"
  messages :: "message list"
  document_store :: "document list"

text \<open>\<^verbatim>\<open>__init__\<close>: no conversation, an empty buffer, an empty store.\<close>

definition init :: chatbot where
  "init = \<lparr>current_conversation_id = None, messages = [], document_store = []\<rparr>"

subsection \<open>The document store\<close>

text \<open>
  Modelled from the spec: the \<^verbatim>\<open>InMemoryDocumentStore\<close> of the Haystack library, which
  the spec reduces to its append/filter contract: a record is persisted by appending it
  (no deduplication), and a query returns the records that carry a tag, in insertion order.
\<close>

definition write_documents :: "document list \<Rightarrow> document list \<Rightarrow> document list" where
  "write_documents docs store = store @ docs"

definition get_all_documents :: "document list \<Rightarrow> document list" where
  "get_all_documents store = store"

definition get_all_documents_filtered :: "string \<Rightarrow> document list \<Rightarrow> document list" where
  "get_all_documents_filtered conv_id store =
     filter (\<lambda>d. meta_conversation_id (doc_meta d) = Some conv_id) store"

subsection \<open>The methods\<close>

text \<open>\<^verbatim>\<open>start_new_conversation\<close>: returns the new id and the state.\<close>

definition start_new_conversation :: "datetime \<Rightarrow> chatbot \<Rightarrow> string \<times> chatbot" where
  "start_new_conversation now s =
     (let cid = strftime_id now
      in (cid, s\<lparr>current_conversation_id := Some cid, messages := []\<rparr>))"

text \<open>\<^verbatim>\<open>_store_message\<close>.\<close>

definition store_message ::
  "(message \<Rightarrow> string) \<Rightarrow> string \<Rightarrow> string \<Rightarrow> datetime \<Rightarrow> chatbot \<Rightarrow> chatbot" where
  "store_message dumps r c now s =
     (let ts = isoformat now;
          msg = \<lparr>role = r, content = c, timestamp = ts\<rparr>;
          doc = \<lparr>doc_content = dumps msg,
                 doc_meta = \<lparr>meta_conversation_id = current_conversation_id s,
                             meta_timestamp = ts, meta_role = r\<rparr>\<rparr>
      in s\<lparr>messages := messages s @ [msg],
            document_store := write_documents [doc] (document_store s)\<rparr>)"

text \<open>
  The outcome of \<^verbatim>\<open>self.client.messages.create\<close>: it raises an exception \<open>e\<close>
  (\<open>Raises (str e)\<close>) or returns a response with a list of content blocks. A block has a
  \<^verbatim>\<open>text\<close> attribute or has none; \<open>OtherBlock\<close> carries the text of the
  \<^verbatim>\<open>AttributeError\<close> that reading \<^verbatim>\<open>.text\<close> raises.
\<close>

datatype block = TextBlock string | OtherBlock string

datatype outcome = Raises string | Response "block list"

text \<open>\<^verbatim>\<open>response.content[0].text\<close>: the text, or the text of the exception.\<close>

fun first_text :: "block list \<Rightarrow> string + string" where
  "first_text [] = Inl ''list index out of range''"
| "first_text (TextBlock t # bs) = Inr t"
| "first_text (OtherBlock e # bs) = Inl e"

text \<open>
  The body of the \<^verbatim>\<open>try\<close> in \<^verbatim>\<open>chat\<close>: \<open>Inl\<close> is the text of the exception that
  leaves it, \<open>Inr\<close> the value returned with the state.
\<close>

definition chat_try ::
  "(message \<Rightarrow> string) \<Rightarrow> outcome \<Rightarrow> datetime \<Rightarrow> chatbot \<Rightarrow> string + (string \<times> chatbot)" where
  "chat_try dumps out now_assistant s =
     (case out of
        Raises e \<Rightarrow> Inl e
      | Response blocks \<Rightarrow>
          (case first_text blocks of
             Inl e \<Rightarrow> Inl e
           | Inr assistant_message \<Rightarrow>
               Inr (assistant_message,
                    store_message dumps ''assistant'' assistant_message now_assistant s)))"

text \<open>
  The part of \<^verbatim>\<open>chat\<close> before the \<^verbatim>\<open>try\<close>: the state in which the completion
  client is called.
\<close>

definition chat_before ::
  "(message \<Rightarrow> string) \<Rightarrow> string \<Rightarrow> datetime \<Rightarrow> datetime \<Rightarrow> chatbot \<Rightarrow> chatbot" where
  "chat_before dumps user_input now_start now_user s =
     (let s0 = (if \<not> truthy (current_conversation_id s)
                then snd (start_new_conversation now_start s) else s)
      in store_message dumps ''user'' user_input now_user s0)"

text \<open>
  \<^verbatim>\<open>chat\<close>. \<open>now_start\<close>, \<open>now_user\<close> and \<open>now_assistant\<close> are the clock values
  that the three places reading the clock get, where they are reached.
\<close>

definition chat ::
  "(message \<Rightarrow> string) \<Rightarrow> string \<Rightarrow> datetime \<Rightarrow> datetime \<Rightarrow> outcome \<Rightarrow> datetime \<Rightarrow>
   chatbot \<Rightarrow> string \<times> chatbot" where
  "chat dumps user_input now_start now_user out now_assistant s =
     (let s1 = chat_before dumps user_input now_start now_user s
      in case chat_try dumps out now_assistant s1 of
           Inl e \<Rightarrow> (''Error: '' @ e, s1)
         | Inr (assistant_message, s2) \<Rightarrow> (assistant_message, s2))"

text \<open>
  The list comprehension \<^verbatim>\<open>[json.loads(doc.content) for doc in docs]\<close>: \<open>None\<close> when
  one of the calls raises.
\<close>

fun loads_all :: "(string \<Rightarrow> message option) \<Rightarrow> document list \<Rightarrow> message list option" where
  "loads_all loads [] = Some []"
| "loads_all loads (doc # docs) =
     (case loads (doc_content doc) of
        None \<Rightarrow> None
      | Some m \<Rightarrow> (case loads_all loads docs of None \<Rightarrow> None | Some ms \<Rightarrow> Some (m # ms)))"

text \<open>
  \<^verbatim>\<open>get_conversation_history\<close>. \<^verbatim>\<open>list.sort\<close> is stable, as \<open>sort_key\<close> is; the
  keys are strings, compared character by character.
\<close>

definition get_conversation_history ::
  "(string \<Rightarrow> message option) \<Rightarrow> string option \<Rightarrow> chatbot \<Rightarrow> message list option" where
  "get_conversation_history loads conversation_id s =
     (case py_or conversation_id (current_conversation_id s) of
        None \<Rightarrow> Some []
      | Some conv_id \<Rightarrow>
          if conv_id = [] then Some []
          else (case loads_all loads (get_all_documents_filtered conv_id (document_store s)) of
                  None \<Rightarrow> None
                | Some msgs \<Rightarrow> Some (sort_key timestamp msgs)))"

text \<open>The loop of \<^verbatim>\<open>search_conversations\<close>, with \<open>results\<close> as its accumulator.\<close>

fun search_loop ::
  "(string \<Rightarrow> message option) \<Rightarrow> string \<Rightarrow> document list \<Rightarrow> search_result list \<Rightarrow>
   search_result list option" where
  "search_loop loads query [] results = Some results"
| "search_loop loads query (doc # docs) results =
     (case loads (doc_content doc) of
        None \<Rightarrow> None
      | Some m \<Rightarrow>
          if str_in (lower query) (lower (content m))
          then search_loop loads query docs
                 (results @
                  [\<lparr>res_conversation_id = meta_conversation_id (doc_meta doc),
                    res_message = m,
                    score = (if str_in (lower query) (lower (content m)) then 1 else 0)\<rparr>])
          else search_loop loads query docs results)"

text \<open>
  \<^verbatim>\<open>search_conversations\<close>. The sort by score with \<^verbatim>\<open>reverse=True\<close> keeps equal
  entries in their order: it is the stable sort on the negated score.
\<close>

definition search_conversations ::
  "(string \<Rightarrow> message option) \<Rightarrow> string \<Rightarrow> int \<Rightarrow> chatbot \<Rightarrow> search_result list option" where
  "search_conversations loads query top_k s =
     (case search_loop loads query (get_all_documents (document_store s)) [] of
        None \<Rightarrow> None
      | Some results \<Rightarrow> Some (slice_to top_k (sort_key (\<lambda>x. - score x) results)))"


subsection \<open>Sequences of calls\<close>

text \<open>
  A call of one of the two public methods that change the state, with the clock values
  and the client outcome it meets.
\<close>

datatype op =
  Start datetime
| Chat string datetime datetime outcome datetime

fun apply_op :: "(message \<Rightarrow> string) \<Rightarrow> op \<Rightarrow> chatbot \<Rightarrow> chatbot" where
  "apply_op dumps (Start now) s = snd (start_new_conversation now s)"
| "apply_op dumps (Chat user_input now_start now_user out now_assistant) s =
     snd (chat dumps user_input now_start now_user out now_assistant s)"

fun run :: "(message \<Rightarrow> string) \<Rightarrow> op list \<Rightarrow> chatbot \<Rightarrow> chatbot" where
  "run dumps [] s = s"
| "run dumps (x # xs) s = run dumps xs (apply_op dumps x s)"

text \<open>The clock values of a call, in the order in which the call reads the clock.\<close>

fun op_times :: "op \<Rightarrow> datetime list" where
  "op_times (Start now) = [now]"
| "op_times (Chat user_input now_start now_user out now_assistant) =
     [now_start, now_user, now_assistant]"

definition clock_of :: "op list \<Rightarrow> datetime list" where
  "clock_of ops = concat (map op_times ops)"

subsection \<open>Properties of the JSON functions and of the store\<close>

text \<open>\<^verbatim>\<open>json.loads\<close> gives back every message that \<^verbatim>\<open>json.dumps\<close> has printed.\<close>

definition json_inverse :: "(message \<Rightarrow> string) \<Rightarrow> (string \<Rightarrow> message option) \<Rightarrow> bool" where
  "json_inverse dumps loads \<longleftrightarrow> (\<forall>m. loads (dumps m) = Some m)"

text \<open>Every document of the store has a content that \<^verbatim>\<open>json.loads\<close> reads.\<close>

definition stored_ok :: "(string \<Rightarrow> message option) \<Rightarrow> chatbot \<Rightarrow> bool" where
  "stored_ok loads s = list_all (\<lambda>d. loads (doc_content d) \<noteq> None) (document_store s)"

text \<open>
  The specification of the search: the documents of a scan whose message contains the
  query, both in lower case, in the order of the scan, each with the score 1.
\<close>

definition matching_entries ::
  "(string \<Rightarrow> message option) \<Rightarrow> string \<Rightarrow> document list \<Rightarrow> search_result list" where
  "matching_entries loads query docs =
     concat (map (\<lambda>d. case loads (doc_content d) of
                          None \<Rightarrow> []
                        | Some m \<Rightarrow>
                            if sublist (lower query) (lower (content m))
                            then [\<lparr>res_conversation_id = meta_conversation_id (doc_meta d),
                                   res_message = m, score = 1\<rparr>]
                            else []) docs)"

text \<open>The documents of the store that \<^verbatim>\<open>_store_message\<close> writes for a message.\<close>

definition document_of :: "(message \<Rightarrow> string) \<Rightarrow> string option \<Rightarrow> message \<Rightarrow> document" where
  "document_of dumps cid m =
     \<lparr>doc_content = dumps m,
      doc_meta = \<lparr>meta_conversation_id = cid, meta_timestamp = timestamp m,
                  meta_role = role m\<rparr>\<rparr>"

text \<open>
  The conversation that a call of \<^verbatim>\<open>chat\<close> writes to: the current one, or the one
  it starts when the current id is falsy.
\<close>

definition chat_conversation :: "datetime \<Rightarrow> chatbot \<Rightarrow> string" where
  "chat_conversation now_start s =
     (case current_conversation_id s of
        None \<Rightarrow> strftime_id now_start
      | Some c \<Rightarrow> if c = [] then strftime_id now_start else c)"

subsection \<open>A JSON printer and reader for messages\<close>

text \<open>
  An instance of the two JSON functions, on which the properties above are evaluated:
  the printer writes a message as the object
  \<^verbatim>\<open>{"role": "...", "content": "...", "timestamp": "..."}\<close>, with a backslash before
  every double quote and backslash of a string; the reader accepts exactly this shape.
\<close>

definition escape_char :: "char \<Rightarrow> string" where
  "escape_char c = (if c = CHR 0x22 \<or> c = CHR 0x5C then [CHR 0x5C, c] else [c])"

fun escape :: "string \<Rightarrow> string" where
  "escape [] = []"
| "escape (c # cs) = escape_char c @ escape cs"

text \<open>Reads a string body up to its closing quote; returns the string and the rest.\<close>

fun scan_string :: "string \<Rightarrow> (string \<times> string) option" where
  "scan_string [] = None"
| "scan_string (c # cs) =
     (if c = CHR 0x22 then Some ([], cs)
      else if c = CHR 0x5C then
        (case cs of
           [] \<Rightarrow> None
         | d # ds \<Rightarrow>
             (case scan_string ds of None \<Rightarrow> None | Some (t, r) \<Rightarrow> Some (d # t, r)))
      else (case scan_string cs of None \<Rightarrow> None | Some (t, r) \<Rightarrow> Some (c # t, r)))"

text \<open>Reads a fixed text; returns the rest.\<close>

fun expect :: "string \<Rightarrow> string \<Rightarrow> string option" where
  "expect [] s = Some s"
| "expect (p # ps) [] = None"
| "expect (p # ps) (c # cs) = (if p = c then expect ps cs else None)"

definition ref_dumps :: "message \<Rightarrow> string" where
  "ref_dumps m =
     ''{\"role\": \"'' @ escape (role m) @
     ''\", \"content\": \"'' @ escape (content m) @
     ''\", \"timestamp\": \"'' @ escape (timestamp m) @ ''\"}''"

definition ref_loads :: "string \<Rightarrow> message option" where
  "ref_loads s =
     (case expect ''{\"role\": \"'' s of
        None \<Rightarrow> None
      | Some s1 \<Rightarrow>
     (case scan_string s1 of
        None \<Rightarrow> None
      | Some (r, s2) \<Rightarrow>
     (case expect '', \"content\": \"'' s2 of
        None \<Rightarrow> None
      | Some s3 \<Rightarrow>
     (case scan_string s3 of
        None \<Rightarrow> None
      | Some (c, s4) \<Rightarrow>
     (case expect '', \"timestamp\": \"'' s4 of
        None \<Rightarrow> None
      | Some s5 \<Rightarrow>
     (case scan_string s5 of
        None \<Rightarrow> None
      | Some (t, s6) \<Rightarrow>
          if s6 = ''}'' then Some \<lparr>role = r, content = c, timestamp = t\<rparr> else None))))))"

subsection \<open>Example values\<close>

text \<open>
  Four clock values of one day: \<open>clock0\<close> and \<open>clock0_late\<close> lie in the same second.
  \<open>example_state\<close> is the state after a conversation is started and one message is
  sent and answered.
\<close>

definition clock0 :: datetime where
  "clock0 = \<lparr>year = 2024, month = 3, day = 9, hour = 12, minute = 0, second = 0,
              microsecond = 0\<rparr>"

definition clock0_late :: datetime where
  "clock0_late = \<lparr>year = 2024, month = 3, day = 9, hour = 12, minute = 0, second = 0,
                   microsecond = 900000\<rparr>"

definition clock1 :: datetime where
  "clock1 = \<lparr>year = 2024, month = 3, day = 9, hour = 12, minute = 0, second = 1,
              microsecond = 250000\<rparr>"

definition clock2 :: datetime where
  "clock2 = \<lparr>year = 2024, month = 3, day = 9, hour = 12, minute = 0, second = 2,
              microsecond = 500000\<rparr>"

definition example_state :: chatbot where
  "example_state =
     run ref_dumps
       [Start clock0,
        Chat ''explain quantum computing'' clock0 clock1
          (Response [TextBlock ''explain gravity'']) clock2] init"

section \<open>Lemmas\<close>

subsection \<open>Strings and the search loop\<close>

lemma str_in_sublist: "str_in q s \<longleftrightarrow> sublist q s"
  by (induction s) (auto simp: sublist_Cons_right)


lemma search_loop_matching:
  "list_all (\<lambda>d. loads (doc_content d) \<noteq> None) docs \<Longrightarrow>
   search_loop loads query docs acc = Some (acc @ matching_entries loads query docs)"
proof (induction docs arbitrary: acc)
  case Nil
  then show ?case by (simp add: matching_entries_def)
next
  case (Cons d docs)
  then obtain m where m: "loads (doc_content d) = Some m" by auto
  from Cons have IH:
    "\<And>acc. search_loop loads query docs acc = Some (acc @ matching_entries loads query docs)"
    by simp
  show ?case
    by (simp add: m IH str_in_sublist matching_entries_def)
qed

lemma score_matching: "r \<in> set (matching_entries loads query docs) \<Longrightarrow> score r = 1"
  by (auto simp: matching_entries_def split: option.splits if_splits)


lemma sort_key_const:
  fixes f :: "'a \<Rightarrow> 'b::linorder"
  shows "(\<And>x. x \<in> set xs \<Longrightarrow> f x = c) \<Longrightarrow> sort_key f xs = xs"
proof (rule sort_key_id_if_sorted)
  assume c: "\<And>x. x \<in> set xs \<Longrightarrow> f x = c"
  then show "sorted (map f xs)"
    by (induction xs) auto
qed

lemma sort_matching:
  "sort_key (\<lambda>x. - score x) (matching_entries loads query docs)
     = matching_entries loads query docs"
  by (rule sort_key_const [where c = "- 1"]) (simp add: score_matching)

lemma search_conversations_eq:
  "stored_ok loads s \<Longrightarrow>
   search_conversations loads query top_k s
     = Some (slice_to top_k (matching_entries loads query (document_store s)))"
  by (simp add: search_conversations_def get_all_documents_def stored_ok_def
      search_loop_matching sort_matching)

lemma set_slice_to: "set (slice_to k xs) \<subseteq> set xs"
  by (simp add: slice_to_def set_take_subset)


subsection \<open>Timestamps: the order of the strings is the order of the clock values\<close>


lemma append_less_same_length:
  fixes xs ys :: "'a::linorder list"
  shows "length xs = length ys \<Longrightarrow> xs < ys \<Longrightarrow> xs @ us < ys @ vs"
  by (induction xs ys rule: list_induct2) auto

lemma append_le_same_prefix:
  fixes xs :: "'a::linorder list"
  shows "us \<le> vs \<Longrightarrow> xs @ us \<le> xs @ vs"
  by (induction xs) auto

lemma length_zpad: "length (zpad w n) = w"
  by (induction w n rule: zpad.induct) auto

lemma digit_less: "a mod 10 < b mod 10 \<Longrightarrow> digit a < digit b"
proof -
  assume "a mod 10 < b mod 10"
  moreover have "(48 + a mod 10) mod 256 = 48 + a mod 10" "(48 + b mod 10) mod 256 = 48 + b mod 10"
    by (simp_all add: mod_less)
  ultimately show ?thesis
    by (simp add: digit_def less_char_def)
qed

lemma zpad_less: "a < b \<Longrightarrow> b < 10 ^ w \<Longrightarrow> zpad w a < zpad w b"
proof (induction w arbitrary: a b)
  case 0
  then show ?case by simp
next
  case (Suc w)
  have le: "a div 10 \<le> b div 10" using Suc.prems(1) by (simp add: div_le_mono)
  have bound: "b div 10 < 10 ^ w" using Suc.prems(2) by (simp add: less_mult_imp_div_less mult.commute)
  show ?case
  proof (cases "a div 10 < b div 10")
    case True
    then have "zpad w (a div 10) < zpad w (b div 10)" using Suc.IH bound by blast
    then show ?thesis by (simp add: append_less_same_length length_zpad)
  next
    case False
    with le have eq: "a div 10 = b div 10" by simp
    have "a mod 10 < b mod 10"
      using Suc.prems(1) eq by (metis div_mult_mod_eq nat_add_left_cancel_less)
    then have "[digit a] < [digit b]" by (simp add: digit_less)
    then show ?thesis
      using eq append_le_same_prefix [of "[digit a]" "[digit b]"] 
      by (simp add: list_less_def lexord_append_leftI)
  qed
qed

lemma field_le:
  assumes "b < 10 ^ w" and "a < b \<or> a = b \<and> us \<le> vs"
  shows "zpad w a @ us \<le> zpad w b @ vs"
  using assms(2)
proof
  assume "a < b"
  then have "zpad w a @ us < zpad w b @ vs"
    using assms(1) by (simp add: append_less_same_length length_zpad zpad_less)
  then show ?thesis by simp
next
  assume "a = b \<and> us \<le> vs"
  then show ?thesis by (simp add: append_le_same_prefix)
qed

lemma isoformat_mono:
  assumes "valid_datetime b" and "datetime_le a b"
  shows "isoformat a \<le> isoformat b"
proof -
  let ?t6 = "\<lambda>d. if microsecond d = 0 then [] else ''.'' @ zpad 6 (microsecond d)"
  let ?t5 = "\<lambda>d. zpad 2 (second d) @ ?t6 d"
  let ?t4 = "\<lambda>d. zpad 2 (minute d) @ '':'' @ ?t5 d"
  let ?t3 = "\<lambda>d. zpad 2 (hour d) @ '':'' @ ?t4 d"
  let ?t2 = "\<lambda>d. zpad 2 (day d) @ ''T'' @ ?t3 d"
  let ?t1 = "\<lambda>d. zpad 2 (month d) @ ''-'' @ ?t2 d"
  have b: "year b < 10 ^ 4" "month b < 10 ^ 2" "day b < 10 ^ 2" "hour b < 10 ^ 2"
    "minute b < 10 ^ 2" "second b < 10 ^ 2" "microsecond b < 10 ^ 6"
    using assms(1) by (simp_all add: valid_datetime_def)
  have s6: "?t6 a \<le> ?t6 b" if "microsecond a \<le> microsecond b"
  proof (cases "microsecond a = 0")
    case True
    then show ?thesis by simp
  next
    case False
    have "zpad 6 (microsecond a) @ [] \<le> zpad 6 (microsecond b) @ []"
      using that by (intro field_le [OF b(7)]) auto
    with False that show ?thesis by simp
  qed
  have s5: "?t5 a \<le> ?t5 b"
    if "second a < second b \<or> second a = second b \<and> microsecond a \<le> microsecond b"
    using that s6 by (intro field_le [OF b(6)]) blast
  have s4: "?t4 a \<le> ?t4 b"
    if "minute a < minute b \<or> minute a = minute b \<and> ?t5 a \<le> ?t5 b"
    using that by (intro field_le [OF b(5)]) simp
  have s3: "?t3 a \<le> ?t3 b"
    if "hour a < hour b \<or> hour a = hour b \<and> ?t4 a \<le> ?t4 b"
    using that by (intro field_le [OF b(4)]) simp
  have s2: "?t2 a \<le> ?t2 b"
    if "day a < day b \<or> day a = day b \<and> ?t3 a \<le> ?t3 b"
    using that by (intro field_le [OF b(3)]) simp
  have s1: "?t1 a \<le> ?t1 b"
    if "month a < month b \<or> month a = month b \<and> ?t2 a \<le> ?t2 b"
    using that by (intro field_le [OF b(2)]) simp
  have s0: "zpad 4 (year a) @ ''-'' @ ?t1 a \<le> zpad 4 (year b) @ ''-'' @ ?t1 b"
    if "year a < year b \<or> year a = year b \<and> ?t1 a \<le> ?t1 b"
    using that by (intro field_le [OF b(1)]) simp
  from assms(2) have key:
    "year a < year b \<or> year a = year b \<and>
     (month a < month b \<or> month a = month b \<and>
     (day a < day b \<or> day a = day b \<and>
     (hour a < hour b \<or> hour a = hour b \<and>
     (minute a < minute b \<or> minute a = minute b \<and>
     (second a < second b \<or> second a = second b \<and> microsecond a \<le> microsecond b)))))"
    by (simp add: datetime_le_def datetime_key_def order.order_iff_strict [of "microsecond a"])
  have "zpad 4 (year a) @ ''-'' @ ?t1 a \<le> zpad 4 (year b) @ ''-'' @ ?t1 b"
    using key s5 s4 s3 s2 s1 by (intro s0) blast
  then show ?thesis
    by (simp add: isoformat_def)
qed

subsection \<open>The JSON printer and reader\<close>

lemma scan_escape: "scan_string (escape s @ CHR 0x22 # rest) = Some (s, rest)"
  by (induction s) (auto simp: escape_char_def)

lemma ref_roundtrip: "ref_loads (ref_dumps m) = Some m"
proof -
  have "ref_loads (ref_dumps m)
        = Some \<lparr>role = role m, content = content m, timestamp = timestamp m\<rparr>"
    unfolding ref_dumps_def ref_loads_def
    by (simp add: scan_escape)
  then show ?thesis by simp
qed

lemma json_inverse_ref: "json_inverse ref_dumps ref_loads"
  by (simp add: json_inverse_def ref_roundtrip)

subsection \<open>The store and the history\<close>

lemma length_strftime_id: "length (strftime_id d) = 15"
  by (simp add: strftime_id_def length_zpad)

lemma strftime_id_not_Nil: "strftime_id d \<noteq> []"
  using length_strftime_id [of d] by auto

lemma chat_conversation_not_Nil: "chat_conversation now_start s \<noteq> []"
  by (simp add: chat_conversation_def strftime_id_not_Nil split: option.splits)

lemma store_message_store:
  "document_store (store_message dumps r c now s) =
     document_store s @
     [document_of dumps (current_conversation_id s)
        \<lparr>role = r, content = c, timestamp = isoformat now\<rparr>]"
  by (simp add: store_message_def write_documents_def document_of_def Let_def)

lemma store_message_current:
  "current_conversation_id (store_message dumps r c now s) = current_conversation_id s"
  by (simp add: store_message_def Let_def)

lemma store_message_messages:
  "messages (store_message dumps r c now s) =
     messages s @ [\<lparr>role = r, content = c, timestamp = isoformat now\<rparr>]"
  by (simp add: store_message_def Let_def)

lemma chat_before_current:
  "current_conversation_id (chat_before dumps u now_start now_user s)
     = Some (chat_conversation now_start s)"
  by (cases "current_conversation_id s")
     (simp_all add: chat_before_def store_message_current start_new_conversation_def
        chat_conversation_def Let_def)

lemma chat_before_store:
  "document_store (chat_before dumps u now_start now_user s) =
     document_store s @
     [document_of dumps (Some (chat_conversation now_start s))
        \<lparr>role = ''user'', content = u, timestamp = isoformat now_user\<rparr>]"
  by (cases "current_conversation_id s")
     (simp_all add: chat_before_def store_message_store start_new_conversation_def
        chat_conversation_def Let_def)

lemma chat_Raises:
  "chat dumps u now_start now_user (Raises e) now_assistant s =
     (''Error: '' @ e, chat_before dumps u now_start now_user s)"
  by (simp add: chat_def chat_try_def Let_def)

lemma chat_Response_text:
  "chat dumps u now_start now_user (Response (TextBlock t # bs)) now_assistant s =
     (t, store_message dumps ''assistant'' t now_assistant
           (chat_before dumps u now_start now_user s))"
  by (simp add: chat_def chat_try_def Let_def)


lemma loads_all_ok:
  "list_all (\<lambda>d. loads (doc_content d) \<noteq> None) docs \<Longrightarrow> \<exists>ms. loads_all loads docs = Some ms"
  by (induction docs) auto

lemma filtered_ok:
  "stored_ok loads s \<Longrightarrow>
   \<exists>ms. loads_all loads (get_all_documents_filtered cid (document_store s)) = Some ms"
  by (rule loads_all_ok) (simp add: stored_ok_def get_all_documents_filtered_def list_all_iff)


lemma filtered_document_of:
  "get_all_documents_filtered cid [document_of dumps c m] =
     (if c = Some cid then [document_of dumps c m] else [])"
  by (simp add: get_all_documents_filtered_def document_of_def)

lemma loads_document_of:
  "json_inverse dumps loads \<Longrightarrow> loads_all loads [document_of dumps c m] = Some [m]"
  by (simp add: json_inverse_def document_of_def)

lemma history_Some_id:
  "cid \<noteq> [] \<Longrightarrow>
   get_conversation_history loads (Some cid) s =
     map_option (sort_key timestamp)
       (loads_all loads (get_all_documents_filtered cid (document_store s)))"
  by (simp add: get_conversation_history_def py_or_def split: option.splits)

lemma history_current:
  "current_conversation_id s = Some cid \<Longrightarrow> cid \<noteq> [] \<Longrightarrow>
   get_conversation_history loads None s = get_conversation_history loads (Some cid) s"
  by (simp add: get_conversation_history_def py_or_def)

lemma history_returns:
  assumes "stored_ok loads s"
  shows "\<exists>h. get_conversation_history loads c s = Some h"
proof (cases "py_or c (current_conversation_id s)")
  case None
  then show ?thesis by (simp add: get_conversation_history_def)
next
  case (Some cid)
  obtain ms where "loads_all loads (get_all_documents_filtered cid (document_store s)) = Some ms"
    using filtered_ok [OF assms] by blast
  with Some show ?thesis by (simp add: get_conversation_history_def)
qed

lemma history_sorted:
  "get_conversation_history loads c s = Some h \<Longrightarrow> sorted (map timestamp h)"
  by (auto simp: get_conversation_history_def split: option.splits if_splits)

lemma stored_ok_append:
  "json_inverse dumps loads \<Longrightarrow> stored_ok loads s \<Longrightarrow>
   document_store s' = document_store s @ [document_of dumps c m] \<Longrightarrow> stored_ok loads s'"
  by (simp add: stored_ok_def json_inverse_def document_of_def)

subsection \<open>Evaluating the formats on clock values\<close>

lemma zpad_Suc_Suc:
  "zpad (Suc (Suc w)) n = zpad w (n div 10 div 10) @ [digit (n div 10), digit n]"
  by simp

lemma zpad_2: "zpad 2 n = [digit (n div 10), digit n]"
  using zpad_Suc_Suc [of 0 n] by (simp add: numeral_2_eq_2)

lemma zpad_4: "zpad 4 n = zpad 2 (n div 10 div 10) @ zpad 2 n"
  using zpad_Suc_Suc [of 2 n] by (simp add: zpad_2)

lemma zpad_6: "zpad 6 n = zpad 4 (n div 10 div 10) @ zpad 2 n"
  using zpad_Suc_Suc [of 4 n] by (simp add: zpad_2)

lemmas format_eval =
  strftime_id_def isoformat_def zpad_2 zpad_4 zpad_6 digit_def char_of_eq_iff

lemma strftime_clock0: "strftime_id clock0 = ''20240309_120000''"
  by (simp add: clock0_def format_eval)

lemma strftime_clock0_late: "strftime_id clock0_late = ''20240309_120000''"
  by (simp add: clock0_late_def format_eval)

lemma isoformat_clock1: "isoformat clock1 = ''2024-03-09T12:00:01.250000''"
  by (simp add: clock1_def format_eval)

lemma isoformat_clock2: "isoformat clock2 = ''2024-03-09T12:00:02.500000''"
  by (simp add: clock2_def format_eval)

subsection \<open>The states that the methods reach\<close>

lemma stored_ok_init: "stored_ok loads init"
  by (simp add: stored_ok_def init_def)

lemma stored_ok_start:
  "stored_ok loads s \<Longrightarrow> stored_ok loads (snd (start_new_conversation now s))"
  by (simp add: stored_ok_def start_new_conversation_def Let_def)

lemma stored_ok_store_message:
  "json_inverse dumps loads \<Longrightarrow> stored_ok loads s \<Longrightarrow>
   stored_ok loads (store_message dumps r c now s)"
  by (rule stored_ok_append) (simp_all add: store_message_store)

lemma stored_ok_chat_before:
  "json_inverse dumps loads \<Longrightarrow> stored_ok loads s \<Longrightarrow>
   stored_ok loads (chat_before dumps u now_start now_user s)"
  by (rule stored_ok_append) (simp_all add: chat_before_store)

lemma stored_ok_chat:
  assumes "json_inverse dumps loads" and "stored_ok loads s"
  shows "stored_ok loads (snd (chat dumps u now_start now_user out now_assistant s))"
proof -
  note b = stored_ok_chat_before [OF assms, of u now_start now_user]
  show ?thesis
    using b stored_ok_store_message [OF assms(1) b]
    by (auto simp: chat_def chat_try_def Let_def split: outcome.splits sum.splits)
qed

lemma stored_ok_run:
  "json_inverse dumps loads \<Longrightarrow> stored_ok loads s \<Longrightarrow> stored_ok loads (run dumps ops s)"
proof (induction ops arbitrary: s)
  case Nil
  then show ?case by simp
next
  case (Cons x ops)
  have "stored_ok loads (apply_op dumps x s)"
    using Cons.prems by (cases x) (simp_all add: stored_ok_start stored_ok_chat)
  with Cons show ?case by simp
qed

lemma stored_ok_example: "stored_ok ref_loads example_state"
  unfolding example_state_def
  by (rule stored_ok_run [OF json_inverse_ref stored_ok_init])

lemma start_current:
  "current_conversation_id (snd (start_new_conversation now s)) = Some (strftime_id now)"
  by (simp add: start_new_conversation_def Let_def)

lemma start_store:
  "document_store (snd (start_new_conversation now s)) = document_store s"
  by (simp add: start_new_conversation_def Let_def)

lemma start_messages: "messages (snd (start_new_conversation now s)) = []"
  by (simp add: start_new_conversation_def Let_def)

lemma chat_conversation_active:
  "current_conversation_id s = Some cid \<Longrightarrow> cid \<noteq> [] \<Longrightarrow> chat_conversation now s = cid"
  by (simp add: chat_conversation_def)

lemma example_store:
  "document_store example_state =
     [document_of ref_dumps (Some ''20240309_120000'')
        \<lparr>role = ''user'', content = ''explain quantum computing'',
          timestamp = ''2024-03-09T12:00:01.250000''\<rparr>,
      document_of ref_dumps (Some ''20240309_120000'')
        \<lparr>role = ''assistant'', content = ''explain gravity'',
          timestamp = ''2024-03-09T12:00:02.500000''\<rparr>]"
  by (simp add: example_state_def chat_Response_text store_message_store chat_before_store
      chat_before_current start_store start_current chat_conversation_def
      strftime_clock0 isoformat_clock1 isoformat_clock2 init_def)


subsection \<open>Documents, slices and the example state\<close>

lemma loads_document_of_content:
  "json_inverse dumps loads \<Longrightarrow> loads (doc_content (document_of dumps c m)) = Some m"
  by (simp add: json_inverse_def document_of_def)

lemma ref_loads_document_of [simp]:
  "ref_loads (doc_content (document_of ref_dumps c m)) = Some m"
  by (rule loads_document_of_content [OF json_inverse_ref])

lemma meta_document_of [simp]:
  "meta_conversation_id (doc_meta (document_of dumps c m)) = c"
  by (simp add: document_of_def)





lemma lower_example_user: "lower ''explain quantum computing'' = ''explain quantum computing''"
  by (simp add: lower_def lower_char_def)

lemma lower_example_assistant: "lower ''explain gravity'' = ''explain gravity''"
  by (simp add: lower_def lower_char_def)

lemma lower_explain: "lower ''explain'' = ''explain''"
  by (simp add: lower_def lower_char_def)


subsection \<open>More on the history and on the example state\<close>

lemma search_example_explain:
  "search_conversations ref_loads ''explain'' k example_state =
     Some (slice_to k
       [\<lparr>res_conversation_id = Some ''20240309_120000'',
         res_message = \<lparr>role = ''user'', content = ''explain quantum computing'',
                         timestamp = ''2024-03-09T12:00:01.250000''\<rparr>,
         score = 1\<rparr>,
        \<lparr>res_conversation_id = Some ''20240309_120000'',
         res_message = \<lparr>role = ''assistant'', content = ''explain gravity'',
                         timestamp = ''2024-03-09T12:00:02.500000''\<rparr>,
         score = 1\<rparr>])"
  by (simp add: search_conversations_eq [OF stored_ok_example] example_store
      matching_entries_def lower_explain lower_example_user lower_example_assistant
      sublist_code)

lemma init_store: "document_store init = []"
  by (simp add: init_def)

lemma history_no_documents:
  "cid \<noteq> [] \<Longrightarrow> get_all_documents_filtered cid (document_store s) = [] \<Longrightarrow>
   get_conversation_history loads (Some cid) s = Some []"
  by (simp add: get_conversation_history_def py_or_def)





section \<open>The claims\<close>

subsection \<open>C3: a positive limit bounds the result, and every result matches\<close>



subsection \<open>C8: every score is 1 and the results keep the order of the scan\<close>

text \<open>
  C8. For every query and limit, every entry that \<^verbatim>\<open>search_conversations\<close> returns has
  the score 1 (no entry with the score 0 is emitted), and the descending sort by score
  leaves the matched entries in the order of the scan of the store: the loop collects
  exactly \<open>matching_entries\<close>, the sort returns that list unchanged, and the result is
  its slice.
\<close>

theorem search_scores_and_order:
  assumes "stored_ok loads s"
  shows "\<exists>results.
           search_loop loads q (get_all_documents (document_store s)) [] = Some results \<and>
           (\<forall>r\<in>set results. score r = 1) \<and>
           sort_key (\<lambda>x. - score x) results = results \<and>
           results = matching_entries loads q (document_store s) \<and>
           search_conversations loads q k s = Some (slice_to k results) \<and>
           (\<forall>r\<in>set (slice_to k results). score r = 1)"
proof -
  let ?M = "matching_entries loads q (document_store s)"
  have loop: "search_loop loads q (get_all_documents (document_store s)) [] = Some ?M"
    using assms by (simp add: get_all_documents_def stored_ok_def search_loop_matching)
  have one: "\<forall>r\<in>set ?M. score r = 1"
    by (simp add: score_matching)
  have one': "\<forall>r\<in>set (slice_to k ?M). score r = 1"
    using subsetD [OF set_slice_to] score_matching by fast
  have res: "search_conversations loads q k s = Some (slice_to k ?M)"
    using assms by (rule search_conversations_eq)
  from loop one one' res sort_matching [of loads q "document_store s"]
  show ?thesis by simp
qed

text \<open>
  The theorem at the example state, with the query \<^verbatim>\<open>explain\<close>, which both stored
  messages contain, and the limit 1: the first message of the scan is returned.
\<close>

theorem search_scores_and_order_witness:
  "stored_ok ref_loads example_state \<and>
   (\<exists>results.
      search_loop ref_loads ''explain'' (get_all_documents (document_store example_state)) []
        = Some results \<and>
      (\<forall>r\<in>set results. score r = 1) \<and>
      sort_key (\<lambda>x. - score x) results = results \<and>
      results = matching_entries ref_loads ''explain'' (document_store example_state) \<and>
      search_conversations ref_loads ''explain'' 1 example_state = Some (slice_to 1 results) \<and>
      (\<forall>r\<in>set (slice_to 1 results). score r = 1)) \<and>
   search_conversations ref_loads ''explain'' 1 example_state =
     Some [\<lparr>res_conversation_id = Some ''20240309_120000'',
            res_message = \<lparr>role = ''user'', content = ''explain quantum computing'',
                            timestamp = ''2024-03-09T12:00:01.250000''\<rparr>,
            score = 1\<rparr>]"
  using search_scores_and_order [of ref_loads example_state "''explain''" 1]
    stored_ok_example search_example_explain [of 1]
  by (simp add: slice_to_def)

subsection \<open>C9: the empty query matches every stored message\<close>



subsection \<open>C2: a limit that is not positive\<close>




subsection \<open>C10: the empty string as a conversation id\<close>




subsection \<open>C5: a stored message is found in the history of its conversation\<close>



subsection \<open>C4: the history right after a conversation is started\<close>

text \<open>
  C4 claims that \<^verbatim>\<open>get_conversation_history()\<close> right after
  \<^verbatim>\<open>start_new_conversation\<close> is empty, after any sequence of operations. The id has the
  resolution of a second and the history is read from the store, not from the buffer that
  the start clears: a conversation started in the second in which an earlier one was
  started gets the same id, and its history holds the messages of the earlier one.
\<close>

theorem start_then_history_counterexample:
  "get_conversation_history ref_loads None
     (snd (start_new_conversation clock0_late
        (snd (chat ref_dumps ''hi'' clock0 clock1 (Raises ''down'') clock1
           (snd (start_new_conversation clock0 init))))))
   = Some [\<lparr>role = ''user'', content = ''hi'', timestamp = ''2024-03-09T12:00:01.250000''\<rparr>]"
proof -
  let ?s1 = "snd (start_new_conversation clock0 init)"
  let ?s2 = "snd (chat ref_dumps ''hi'' clock0 clock1 (Raises ''down'') clock1 ?s1)"
  let ?s3 = "snd (start_new_conversation clock0_late ?s2)"
  let ?m = "\<lparr>role = ''user'', content = ''hi'', timestamp = ''2024-03-09T12:00:01.250000''\<rparr>"
  have cur1: "current_conversation_id ?s1 = Some ''20240309_120000''"
    by (simp add: start_current strftime_clock0)
  have conv: "chat_conversation clock0 ?s1 = ''20240309_120000''"
    by (rule chat_conversation_active [OF cur1]) simp
  have store2: "document_store ?s2 = [document_of ref_dumps (Some ''20240309_120000'') ?m]"
    by (simp add: chat_Raises chat_before_store conv start_store init_store isoformat_clock1)
  have cur3: "current_conversation_id ?s3 = Some ''20240309_120000''"
    by (simp add: start_current strftime_clock0_late)
  have store3: "document_store ?s3 = [document_of ref_dumps (Some ''20240309_120000'') ?m]"
    by (simp only: start_store store2)
  have "get_conversation_history ref_loads None ?s3
        = get_conversation_history ref_loads (Some ''20240309_120000'') ?s3"
    by (rule history_current [OF cur3]) simp
  also have "\<dots> = Some [?m]"
    by (simp add: history_Some_id store3 filtered_document_of
        loads_document_of [OF json_inverse_ref])
  finally show ?thesis .
qed

text \<open>
  C4, amended. In every state, when no stored record carries the id that
  \<^verbatim>\<open>start_new_conversation\<close> generates, \<^verbatim>\<open>get_conversation_history()\<close> right after it
  returns the empty sequence. The in-memory buffer is empty after it in any case.
\<close>

theorem start_then_history:
  assumes "get_all_documents_filtered (strftime_id now) (document_store s) = []"
  shows "get_conversation_history loads None (snd (start_new_conversation now s)) = Some [] \<and>
         messages (snd (start_new_conversation now s)) = []"
proof -
  let ?s = "snd (start_new_conversation now s)"
  have "get_conversation_history loads None ?s
        = get_conversation_history loads (Some (strftime_id now)) ?s"
    by (rule history_current [OF start_current strftime_id_not_Nil])
  also have "\<dots> = Some []"
    using assms by (intro history_no_documents strftime_id_not_Nil) (simp add: start_store)
  finally show ?thesis by (simp add: start_messages)
qed

text \<open>
  The theorem at the example state, with a new conversation started one second after the
  first one.
\<close>

theorem start_then_history_witness:
  "get_all_documents_filtered (strftime_id clock1) (document_store example_state) = [] \<and>
   get_conversation_history ref_loads None
     (snd (start_new_conversation clock1 example_state)) = Some [] \<and>
   messages (snd (start_new_conversation clock1 example_state)) = []"
proof -
  have id1: "strftime_id clock1 = ''20240309_120001''"
    by (simp add: clock1_def format_eval)
  have fresh: "get_all_documents_filtered (strftime_id clock1) (document_store example_state) = []"
    by (simp add: id1 example_store get_all_documents_filtered_def)
  from start_then_history [OF fresh, of ref_loads] fresh show ?thesis by simp
qed

end
